theory Spec2Isabelle
  imports Main
begin

section \<open>The access-control model of \<open>src/acl/models.py\<close>\<close>

text \<open>
  The module defines three comparable helper classes (\<open>AclLevel\<close>, \<open>AclRole\<close>,
  \<open>AclResponse\<close>), module-level instances of them, and three methods that compute
  with them: \<open>AccessList.check_entity_role\<close>, \<open>AccessList.check_membership\<close> and
  \<open>AclProfileMixin.check_access\<close>. Python raises where HOL would return an arbitrary
  value, so every function below returns \<open>error + 'a\<close>, with \<open>Inl\<close> for the exception
  that leaves the function.
\<close>

subsection \<open>Exceptions\<close>

datatype error =
    NameError string
  | UnboundLocalError string
  | TypeError string
  | KeyError string
  | AttributeError string
  | IndexError
  | DoesNotExist
  | MultipleObjectsReturned

text \<open>
  \<open>NameError n\<close>: the name \<open>n\<close> is bound neither in the function, nor in the module, nor
  as a builtin. \<open>UnboundLocalError n\<close>: \<open>n\<close> is a local of the function, read before its
  first assignment. \<open>TypeError f\<close>: the builtin operation \<open>f\<close> rejects its operand.
  \<open>KeyError k\<close>: the dict has no key \<open>k\<close>. \<open>AttributeError a\<close>: the object has no
  attribute \<open>a\<close>. \<open>DoesNotExist\<close> and \<open>MultipleObjectsReturned\<close> are what Django's
  \<open>QuerySet.get\<close> raises for no row and for more than one row.
\<close>

definition and_then :: "error + 'a \<Rightarrow> ('a \<Rightarrow> error + 'b) \<Rightarrow> error + 'b" where
  "and_then m f = (case m of Inl e \<Rightarrow> Inl e | Inr v \<Rightarrow> f v)"

subsection \<open>Naming constants (lines 11 to 20)\<close>

definition ADMIN :: string where "ADMIN = ''Admin''"
definition MANAGER :: string where "MANAGER = ''Manager''"
definition MEMBER :: string where "MEMBER = ''Member''"
definition BLOCKED :: string where "BLOCKED = ''Blocked''"
definition NONE :: string where "NONE = ''None''"
definition CHARACTER_LEVEL :: string where "CHARACTER_LEVEL = ''Character''"
definition CORP_LEVEL :: string where "CORP_LEVEL = ''Corp''"
definition ALLIANCE_LEVEL :: string where "ALLIANCE_LEVEL = ''Alliance''"
definition FACTION_LEVEL :: string where "FACTION_LEVEL = ''Faction''"
definition PUBLIC_LEVEL :: string where "PUBLIC_LEVEL = ''Public''"

subsection \<open>The helper classes (lines 24 to 132)\<close>

text \<open>
  Python is dynamically typed: \<open>AclResponse(level, role)\<close> stores whatever it is given,
  and \<open>AclLevel.__eq__\<close> accepts any \<open>other\<close> that \<open>int()\<close> accepts. One datatype of
  objects therefore holds the instances of the three classes, each constructor carrying
  the attributes that \<open>__init__\<close> stores: \<open>self.level\<close> (a name), \<open>self.role\<close> (a name),
  and \<open>self.level, self.role\<close> (two objects). Objects are values here: the model has no
  object identity, and none of the methods below reads it.
\<close>

datatype obj =
    AclLevel string
  | AclRole string
  | AclResponse obj obj

text \<open>\<open>__init__\<close> of \<open>AclLevel\<close> (lines 36, 37) and of \<open>AclRole\<close> (lines 68, 69) is a
  single assignment of the argument to the attribute.\<close>

definition AclLevel_init :: "string \<Rightarrow> error + obj" where
  "AclLevel_init level = Inr (AclLevel level)"

definition AclRole_init :: "string \<Rightarrow> error + obj" where
  "AclRole_init role = Inr (AclRole role)"

definition LEVEL_MAP :: "string \<rightharpoonup> int" where
  "LEVEL_MAP = map_of
     [(CHARACTER_LEVEL, 5), (CORP_LEVEL, 4), (ALLIANCE_LEVEL, 3), (FACTION_LEVEL, 2),
      (PUBLIC_LEVEL, 1), (NONE, 0)]"

definition ROLE_MAP :: "string \<rightharpoonup> int" where
  "ROLE_MAP = map_of [(BLOCKED, 4), (ADMIN, 3), (MANAGER, 2), (MEMBER, 1), (NONE, 0)]"

definition subscript :: "(string \<rightharpoonup> int) \<Rightarrow> string \<Rightarrow> error + int" where
  "subscript d k = (case d k of None \<Rightarrow> Inl (KeyError k) | Some v \<Rightarrow> Inr v)"

text \<open>
  The builtin \<open>int(x)\<close> calls the \<open>__int__\<close> of the class of \<open>x\<close>: \<open>AclLevel.__int__\<close>
  (line 40) and \<open>AclRole.__int__\<close> (line 75) subscript their dict with the stored name.
  \<open>AclResponse\<close> defines \<open>__bool__\<close>, \<open>__nonzero__\<close>, \<open>__str__\<close>, \<open>__eq__\<close> and \<open>__lt__\<close>
  and inherits from \<open>object\<close>; it has no \<open>__int__\<close>, \<open>__index__\<close> or \<open>__trunc__\<close>, so
  \<open>int()\<close> of an instance raises TypeError.
\<close>

fun py_int :: "obj \<Rightarrow> error + int" where
  "py_int (AclLevel level) = subscript LEVEL_MAP level"
| "py_int (AclRole role) = subscript ROLE_MAP role"
| "py_int (AclResponse level role) = Inl (TypeError ''int'')"

text \<open>
  \<open>bool(x)\<close>: \<open>AclLevel.__bool__\<close> (line 52), \<open>AclRole.__bool__\<close> (line 78, whose
  \<open>and\<close> evaluates its right operand only when the left one is true) and
  \<open>AclResponse.__bool__\<close> (line 116).
\<close>

fun py_bool :: "obj \<Rightarrow> error + bool" where
  "py_bool (AclLevel level) = and_then (py_int (AclLevel level)) (\<lambda>n. Inr (n \<noteq> 0))"
| "py_bool (AclRole role) =
     and_then (py_int (AclRole role)) (\<lambda>n.
       if n \<noteq> 0
       then and_then (py_int (AclRole role)) (\<lambda>m.
              and_then (subscript ROLE_MAP BLOCKED) (\<lambda>b. Inr (m \<noteq> b)))
       else Inr False)"
| "py_bool (AclResponse level role) = py_bool role"

text \<open>
  \<open>self == other\<close> calls the \<open>__eq__\<close> of the class of \<open>self\<close>. \<open>AclLevel.__eq__\<close>
  (line 46) and \<open>AclRole.__eq__\<close> (line 84) compare \<open>int(self)\<close> with \<open>int(other)\<close>.
  \<open>AclResponse.__eq__\<close> (line 125) builds the tuples \<open>(self.level, self.role)\<close> and
  \<open>(other.level, other.role)\<close> and compares them: tuples of the same length are equal
  when their items are pairwise \<open>==\<close>, items compared left to right, stopping at the first
  pair that differs. An \<open>other\<close> that is an \<open>AclLevel\<close> has no attribute \<open>role\<close>, one that
  is an \<open>AclRole\<close> has no attribute \<open>level\<close>.
\<close>

fun py_eq :: "obj \<Rightarrow> obj \<Rightarrow> error + bool" where
  "py_eq (AclLevel level) other =
     and_then (py_int (AclLevel level)) (\<lambda>m. and_then (py_int other) (\<lambda>n. Inr (m = n)))"
| "py_eq (AclRole role) other =
     and_then (py_int (AclRole role)) (\<lambda>m. and_then (py_int other) (\<lambda>n. Inr (m = n)))"
| "py_eq (AclResponse level role) (AclResponse level' role') =
     and_then (py_eq level level') (\<lambda>e. if e then py_eq role role' else Inr False)"
| "py_eq (AclResponse level role) (AclLevel other_level) = Inl (AttributeError ''role'')"
| "py_eq (AclResponse level role) (AclRole other_role) = Inl (AttributeError ''level'')"

text \<open>
  \<open>self < other\<close> calls the \<open>__lt__\<close> of the class of \<open>self\<close>: lines 49 and 87 compare
  the ranks. \<open>AclResponse.__lt__\<close> (lines 127 to 132) first evaluates
  \<open>int(other) and not int(self)\<close>, \<open>int(other)\<close> first and \<open>int(self)\<close> only when that is
  nonzero; when the test is true the result is \<open>True\<close>, otherwise it is the tuple
  comparison \<open>(self.level, self.role) < (other.level, other.role)\<close>. Python compares
  tuples by finding the first index where the items are not \<open>==\<close> and returning \<open><\<close> of
  those two items; tuples of equal length with all items \<open>==\<close> are not \<open><\<close>.
\<close>

fun py_lt :: "obj \<Rightarrow> obj \<Rightarrow> error + bool" where
  "py_lt (AclLevel level) other =
     and_then (py_int (AclLevel level)) (\<lambda>m. and_then (py_int other) (\<lambda>n. Inr (m < n)))"
| "py_lt (AclRole role) other =
     and_then (py_int (AclRole role)) (\<lambda>m. and_then (py_int other) (\<lambda>n. Inr (m < n)))"
| "py_lt (AclResponse level role) other =
     and_then (py_int other) (\<lambda>n.
     and_then (if n \<noteq> 0
               then and_then (py_int (AclResponse level role)) (\<lambda>m. Inr (m = 0))
               else Inr False) (\<lambda>none_lower.
       if none_lower then Inr True
       else (case other of
               AclResponse level' role' \<Rightarrow>
                 and_then (py_eq level level') (\<lambda>e.
                   if \<not> e then py_lt level level'
                   else and_then (py_eq role role') (\<lambda>e'.
                          if \<not> e' then py_lt role role' else Inr False))
             | AclLevel _ \<Rightarrow> Inl (AttributeError ''role'')
             | AclRole _ \<Rightarrow> Inl (AttributeError ''level''))))"

subsection \<open>The module's global names (lines 90 to 102 and 135)\<close>

text \<open>
  A name that a function body reads and does not assign is looked up in the module's
  globals when the statement runs, and NameError is raised when it is not there (none
  of the names below is a builtin). The map holds every module-level name that is bound
  to an instance of the three helper classes. The module binds no other name to such an
  instance: its other globals are the imports, the naming constants, the classes and
  the \<open>User\<close>-lookup function.
\<close>

definition module_globals :: "string \<rightharpoonup> obj" where
  "module_globals = map_of
     [(''character_level'', AclLevel CHARACTER_LEVEL),
      (''corp_level'', AclLevel CORP_LEVEL),
      (''alliance_level'', AclLevel ALLIANCE_LEVEL),
      (''faction_level'', AclLevel FACTION_LEVEL),
      (''public_level'', AclLevel PUBLIC_LEVEL),
      (''none_level'', AclLevel NONE),
      (''blocked_role'', AclRole BLOCKED),
      (''admin_role'', AclRole ADMIN),
      (''manager_role'', AclRole MANAGER),
      (''member_role'', AclRole MEMBER),
      (''none_role'', AclRole NONE),
      (''empty_response'', AclResponse (AclLevel NONE) (AclRole NONE))]"

definition global_name :: "string \<Rightarrow> error + obj" where
  "global_name n = (case module_globals n of None \<Rightarrow> Inl (NameError n) | Some v \<Rightarrow> Inr v)"

subsection \<open>Sorting a list of objects\<close>

text \<open>
  \<open>list.sort(reverse=True)\<close> sorts in place with \<open><\<close> only, and evaluates to \<open>None\<close>.
  With \<open>reverse=True\<close> CPython reverses the list, sorts it stably in ascending order and
  reverses the result. It compares nothing when the list has fewer than two items and
  compares at least one pair otherwise; an exception raised by \<open><\<close> leaves the sort.
  The model is a stable insertion sort with the same three properties; which pairs it
  compares, and in which order, is not what CPython's merge sort does.
\<close>

fun insert_sorted :: "obj \<Rightarrow> obj list \<Rightarrow> error + obj list" where
  "insert_sorted x [] = Inr [x]"
| "insert_sorted x (y # ys) =
     and_then (py_lt y x) (\<lambda>lt.
       if lt then and_then (insert_sorted x ys) (\<lambda>zs. Inr (y # zs))
       else Inr (x # y # ys))"

fun sort_ascending :: "obj list \<Rightarrow> error + obj list" where
  "sort_ascending [] = Inr []"
| "sort_ascending (x # xs) = and_then (sort_ascending xs) (insert_sorted x)"

definition sort_reverse :: "obj list \<Rightarrow> error + obj list" where
  "sort_reverse xs = and_then (sort_ascending (rev xs)) (\<lambda>ys. Inr (rev ys))"

subsection \<open>Entities, memberships and access lists (lines 137 to 231)\<close>

text \<open>
  What \<open>check_membership\<close> reads of its argument: whether it is an instance of the user
  model, its \<open>id\<close>, the attribute that the setting \<open>ACL_USER_CHECK_ID_FIELD\<close> names, and
  the four affiliation attributes. \<open>None\<close> stands for an attribute that is absent or
  holds Python's \<open>None\<close>; \<open>hasattr(e, a) and e.a\<close> is then true for \<open>Some i\<close> with
  \<open>i \<noteq> 0\<close>. The argument is an instance, not a class.
\<close>

record entity =
  is_User :: bool
  id_attr :: int
  user_check_id :: "int option"
  character_id :: "int option"
  corporation_id :: "int option"
  alliance_id :: "int option"
  faction_id :: "int option"

text \<open>\<open>BaseEntity(id=i)\<close>: an unsaved instance of which only \<open>id\<close> is read.\<close>

definition BaseEntity :: "int \<Rightarrow> entity" where
  "BaseEntity i =
     \<lparr>is_User = False, id_attr = i, user_check_id = None, character_id = None,
      corporation_id = None, alliance_id = None, faction_id = None\<rparr>"

text \<open>
  A row of \<open>AccessListMembership\<close> (lines 223 to 225), as seen from its access list: the
  id of its entity and its role name. \<open>membership_set\<close> of an access list is the reverse
  relation of the row's \<open>access_list\<close> foreign key, so the rows of one access list are a
  list here. \<open>unique_together\<close> (line 228) says that no two of them share an entity; it
  is a constraint of the database and appears as a hypothesis where it is needed.
\<close>

record AccessListMembership =
  entity_id :: int
  role :: string

record AccessList =
  name :: string
  description :: string
  public :: bool
  membership_set :: "AccessListMembership list"

text \<open>\<open>membership_set.get(entity__id=i)\<close>: the one row that matches, DoesNotExist when
  none does, MultipleObjectsReturned when several do.\<close>

definition get_entity__id :: "AccessListMembership list \<Rightarrow> int \<Rightarrow> error + AccessListMembership" where
  "get_entity__id rows i =
     (case filter (\<lambda>m. entity_id m = i) rows of
        [] \<Rightarrow> Inl DoesNotExist
      | [m] \<Rightarrow> Inr m
      | m # m' # ms \<Rightarrow> Inl MultipleObjectsReturned)"

text \<open>\<open>AccessList.check_entity_role\<close> (lines 167 to 175): the \<open>except\<close> clause catches
  DoesNotExist and nothing else.\<close>

definition check_entity_role :: "AccessList \<Rightarrow> entity \<Rightarrow> error + obj" where
  "check_entity_role self e =
     (case and_then (get_entity__id (membership_set self) (id_attr e))
             (\<lambda>membership. AclRole_init (role membership)) of
        Inl DoesNotExist \<Rightarrow> global_name ''none_role''
      | Inl err \<Rightarrow> Inl err
      | Inr r \<Rightarrow> Inr r)"

text \<open>
  Lines 190 to 205 are four blocks of one shape:
  \<^verbatim>\<open>
  if hasattr(entity, A) and entity.A:
      partial_entity = BaseEntity(id=entity.A)
      entity_role = self.check_entity_role(partial_entity)
      roles.append(AclResponse(L, entity_role))
  \<close>
  where \<open>L\<close> is a global name, looked up after the role has been computed.
\<close>

definition append_affiliation ::
  "AccessList \<Rightarrow> int option \<Rightarrow> string \<Rightarrow> obj list \<Rightarrow> error + obj list" where
  "append_affiliation self a L roles =
     (case a of
        None \<Rightarrow> Inr roles
      | Some i \<Rightarrow>
          if i \<noteq> 0
          then and_then (check_entity_role self (BaseEntity i)) (\<lambda>entity_role.
               and_then (global_name L) (\<lambda>level.
                 Inr (roles @ [AclResponse level entity_role])))
          else Inr roles)"

text \<open>
  \<open>AccessList.check_membership\<close>, lines 183 to 208: the statements that build the list
  \<open>roles\<close>.
  \<^item> Line 183 asks Django for the user model class; the call is taken to return.
  \<^item> Line 184 reads the global \<open>none_response\<close>.
  \<^item> Line 185: \<open>isinstance(entity, User) or issubclass(entity, User)\<close>; \<open>issubclass\<close>
    is evaluated when \<open>isinstance\<close> is false and raises TypeError, its first argument
    being an instance.
  \<^item> Line 186 assigns the local \<open>parial_entity\<close>; line 187 reads \<open>character_level\<close> and
    then the local \<open>partial_entity\<close>, which lines 191 to 203 assign and which is unbound
    at this point.
  \<^item> Line 197 reads the global \<open>corporation_level\<close>.
\<close>

definition check_membership_roles :: "AccessList \<Rightarrow> entity \<Rightarrow> error + obj list" where
  "check_membership_roles self e =
     and_then (global_name ''none_response'') (\<lambda>none_response.
     and_then (if is_User e then Inr True else Inl (TypeError ''issubclass'')) (\<lambda>user.
     and_then
       (if user
        then and_then (case user_check_id e of
                         None \<Rightarrow> Inl (AttributeError ''ACL_USER_CHECK_ID_FIELD'')
                       | Some i \<Rightarrow> Inr (BaseEntity i)) (\<lambda>parial_entity.
             and_then (global_name ''character_level'') (\<lambda>level.
               Inl (UnboundLocalError ''partial_entity'')))
        else and_then (global_name ''character_level'') (\<lambda>level.
             and_then (check_entity_role self e) (\<lambda>r.
               Inr ([none_response] @ [AclResponse level r])))) (\<lambda>roles.
     and_then (append_affiliation self (character_id e) ''character_level'' roles) (\<lambda>roles.
     and_then (append_affiliation self (corporation_id e) ''corporation_level'' roles) (\<lambda>roles.
     and_then (append_affiliation self (alliance_id e) ''alliance_level'' roles) (\<lambda>roles.
     and_then (append_affiliation self (faction_id e) ''faction_level'' roles) (\<lambda>roles.
       if public self
       then and_then (global_name ''public_level'') (\<lambda>level.
            and_then (global_name ''member_role'') (\<lambda>r.
              Inr (roles @ [AclResponse level r])))
       else Inr roles)))))))"

text \<open>
  Line 209, \<open>return roles.sort(reverse=True)[0]\<close>: the sort runs, its value is \<open>None\<close>,
  and subscripting \<open>None\<close> raises TypeError.
\<close>

definition check_membership :: "AccessList \<Rightarrow> entity \<Rightarrow> error + obj" where
  "check_membership self e =
     and_then (check_membership_roles self e) (\<lambda>roles.
     and_then (sort_reverse roles) (\<lambda>sorted. Inl (TypeError ''subscript'')))"

subsection \<open>Profiles (lines 233 to 252)\<close>

record AclProfileMixin =
  can_access :: "AccessList list"

text \<open>The list comprehension of line 249 stops at the first call that raises.\<close>

fun check_membership_each :: "AccessList list \<Rightarrow> entity \<Rightarrow> error + obj list" where
  "check_membership_each [] e = Inr []"
| "check_membership_each (x # xs) e =
     and_then (check_membership x e) (\<lambda>r.
     and_then (check_membership_each xs e) (\<lambda>rs. Inr (r # rs)))"

text \<open>\<open>AclProfileMixin.check_access\<close> (lines 244 to 252).\<close>

definition check_access :: "AclProfileMixin \<Rightarrow> entity \<Rightarrow> error + bool" where
  "check_access self e =
     and_then (check_membership_each (can_access self) e) (\<lambda>access_list.
     and_then (global_name ''empty_response'') (\<lambda>empty_response.
     and_then (sort_reverse (access_list @ [empty_response])) (\<lambda>sorted.
       case sorted of [] \<Rightarrow> Inl IndexError | x # xs \<Rightarrow> py_bool x)))"

subsection \<open>Concrete inputs\<close>

text \<open>
  Scenario A: one access list on which the subject (id 100) is a Member and its
  corporation (id 200) is an Admin. Scenario B: a public access list on which the
  subject has no row and its corporation is Blocked.
\<close>

definition scenario_A_list :: AccessList where
  "scenario_A_list =
     \<lparr>name = ''A'', description = ''scenario A'', public = False,
      membership_set =
        [\<lparr>entity_id = 100, role = MEMBER\<rparr>, \<lparr>entity_id = 200, role = ADMIN\<rparr>]\<rparr>"

definition scenario_A_entity :: entity where
  "scenario_A_entity =
     \<lparr>is_User = False, id_attr = 100, user_check_id = None, character_id = None,
      corporation_id = Some 200, alliance_id = None, faction_id = None\<rparr>"

definition scenario_B_list :: AccessList where
  "scenario_B_list =
     \<lparr>name = ''B'', description = ''scenario B'', public = True,
      membership_set = [\<lparr>entity_id = 200, role = BLOCKED\<rparr>]\<rparr>"

definition scenario_B_entity :: entity where
  "scenario_B_entity =
     \<lparr>is_User = False, id_attr = 100, user_check_id = None, character_id = None,
      corporation_id = Some 200, alliance_id = None, faction_id = None\<rparr>"

section \<open>Basic facts\<close>

lemma and_then_Inl [simp]: "and_then (Inl e) f = Inl e"
  by (simp add: and_then_def)

lemma and_then_Inr [simp]: "and_then (Inr v) f = f v"
  by (simp add: and_then_def)

lemmas names =
  ADMIN_def MANAGER_def MEMBER_def BLOCKED_def NONE_def CHARACTER_LEVEL_def CORP_LEVEL_def
  ALLIANCE_LEVEL_def FACTION_LEVEL_def PUBLIC_LEVEL_def

lemma none_response_unbound: "global_name ''none_response'' = Inl (NameError ''none_response'')"
  by (simp add: global_name_def module_globals_def)

lemma get_entity__id_absent:
  "\<forall>m \<in> set rows. entity_id m \<noteq> i \<Longrightarrow> get_entity__id rows i = Inl DoesNotExist"
  by (simp add: get_entity__id_def)

lemma filter_distinct_singleton:
  "distinct (map f rows) \<Longrightarrow> m \<in> set rows \<Longrightarrow> filter (\<lambda>x. f x = f m) rows = [m]"
proof (induction rows)
  case Nil
  then show ?case by simp
next
  case (Cons r rows)
  show ?case
  proof (cases "r = m")
    case True
    with Cons.prems have "\<forall>x \<in> set rows. f x \<noteq> f m"
      by (fastforce simp: image_iff)
    then have "filter (\<lambda>x. f x = f m) rows = []" by simp
    with True show ?thesis by simp
  next
    case False
    with Cons.prems have "m \<in> set rows" "f r \<noteq> f m" by auto
    with Cons show ?thesis by simp
  qed
qed

lemma get_entity__id_present:
  "distinct (map entity_id rows) \<Longrightarrow> m \<in> set rows \<Longrightarrow>
     get_entity__id rows (entity_id m) = Inr m"
  by (simp add: get_entity__id_def filter_distinct_singleton)

lemma check_entity_role_not_DoesNotExist:
  "check_entity_role self e \<noteq> Inl DoesNotExist"
proof (cases "get_entity__id (membership_set self) (id_attr e)")
  case (Inl err)
  then show ?thesis
    by (cases err) (simp_all add: check_entity_role_def global_name_def module_globals_def)
next
  case (Inr m)
  then show ?thesis
    by (simp add: check_entity_role_def AclRole_init_def)
qed

section \<open>Per-list resolution: \<open>check_membership\<close>\<close>

text \<open>
  C1. The per-list resolution is meant to return the greatest candidate. In the code
  the first statement that builds the candidate list reads \<open>none_response\<close>, a name the
  module never binds (the floor is bound as \<open>empty_response\<close>), so on every access list
  and every entity \<open>check_membership\<close> leaves with NameError and returns no Response.
\<close>

theorem check_membership_raises:
  "check_membership self e = Inl (NameError ''none_response'')"
  by (simp add: check_membership_def check_membership_roles_def none_response_unbound)

text \<open>
  C2. Scenario A as an input: the subject has the Member row, its corporation has the
  Admin row (both lookups succeed), and \<open>check_membership\<close> raises NameError where the
  Character-level Member Response is expected.
\<close>

theorem scenario_A_raises:
  "check_entity_role scenario_A_list scenario_A_entity = Inr (AclRole MEMBER)
   \<and> check_entity_role scenario_A_list (BaseEntity 200) = Inr (AclRole ADMIN)
   \<and> check_membership scenario_A_list scenario_A_entity = Inl (NameError ''none_response'')"
  by (simp add: check_membership_def check_membership_roles_def none_response_unbound
      check_entity_role_def get_entity__id_def scenario_A_list_def scenario_A_entity_def
      BaseEntity_def AclRole_init_def)

text \<open>
  C3. Scenario B as an input: the subject has no row, its corporation has the Blocked
  row, the list is public. \<open>check_membership\<close> raises NameError where the (Corp,
  Blocked) Response is expected, and \<open>check_access\<close> on a profile holding only that
  list raises the same error where \<open>False\<close> is expected.
\<close>

theorem scenario_B_raises:
  "check_entity_role scenario_B_list scenario_B_entity = Inr (AclRole NONE)
   \<and> check_entity_role scenario_B_list (BaseEntity 200) = Inr (AclRole BLOCKED)
   \<and> check_membership scenario_B_list scenario_B_entity = Inl (NameError ''none_response'')
   \<and> check_access \<lparr>can_access = [scenario_B_list]\<rparr> scenario_B_entity
       = Inl (NameError ''none_response'')"
  by (simp add: check_access_def check_membership_def check_membership_roles_def
      none_response_unbound check_entity_role_def get_entity__id_def scenario_B_list_def
      scenario_B_entity_def BaseEntity_def AclRole_init_def global_name_def
      module_globals_def)

text \<open>
  C6. The candidate list is meant to start with the floor element. The name read for it,
  \<open>none_response\<close>, is unbound, while the floor is bound as \<open>empty_response\<close>; building
  the candidate list therefore raises NameError on every input and yields no list.
\<close>

theorem check_membership_roles_floor_unbound:
  "module_globals ''none_response'' = None
   \<and> module_globals ''empty_response'' = Some (AclResponse (AclLevel NONE) (AclRole NONE))
   \<and> check_membership_roles self e = Inl (NameError ''none_response'')"
  by (simp add: check_membership_roles_def none_response_unbound module_globals_def)

section \<open>Comparing Responses\<close>

text \<open>
  C4. \<open>AclResponse.__lt__\<close> begins by converting \<open>other\<close>, an \<open>AclResponse\<close>, with
  \<open>int()\<close>. The class has no \<open>__int__\<close>, so for every pair of Responses the comparison
  raises TypeError before either the None-lower shortcut or the tuple comparison is
  reached; it yields no truth value.
\<close>

theorem AclResponse_lt_raises:
  "py_lt (AclResponse l r) (AclResponse l' r') = Inl (TypeError ''int'')"
  by simp

text \<open>Hence sorting a list of two Responses raises as well.\<close>

lemma sort_reverse_two_responses:
  "sort_reverse [AclResponse a b, AclResponse c d] = Inl (TypeError ''int'')"
  by (simp add: sort_reverse_def)

text \<open>
  C5. For the floor Response and the (Character, Member) Response, which are not equal,
  neither \<open>a < b\<close> nor \<open>b < a\<close> yields \<open>True\<close>: both raise TypeError. So none of the
  three alternatives of the trichotomy holds at this pair.
\<close>

theorem AclResponse_order_undefined:
  "py_lt (AclResponse (AclLevel NONE) (AclRole NONE))
         (AclResponse (AclLevel CHARACTER_LEVEL) (AclRole MEMBER)) = Inl (TypeError ''int'')
   \<and> py_lt (AclResponse (AclLevel CHARACTER_LEVEL) (AclRole MEMBER))
           (AclResponse (AclLevel NONE) (AclRole NONE)) = Inl (TypeError ''int'')
   \<and> py_eq (AclResponse (AclLevel NONE) (AclRole NONE))
           (AclResponse (AclLevel CHARACTER_LEVEL) (AclRole MEMBER)) = Inr False"
  by (simp add: subscript_def LEVEL_MAP_def ROLE_MAP_def names)

section \<open>Profile aggregation: \<open>check_access\<close>\<close>

text \<open>
  C7. On a profile with no attached access list, \<open>check_access\<close> returns \<open>False\<close> for
  every entity: the list to sort is the floor \<open>empty_response\<close> alone, sorting one item
  compares nothing, and the floor's truth value is that of the role None, which is
  false.
\<close>

theorem check_access_no_lists:
  "check_access \<lparr>can_access = []\<rparr> e = Inr False
   \<and> global_name ''empty_response'' = Inr (AclResponse (AclLevel NONE) (AclRole NONE))
   \<and> sort_reverse [AclResponse (AclLevel NONE) (AclRole NONE)]
       = Inr [AclResponse (AclLevel NONE) (AclRole NONE)]
   \<and> py_bool (AclResponse (AclLevel NONE) (AclRole NONE)) = Inr False"
  by (simp add: check_access_def global_name_def module_globals_def sort_reverse_def
      subscript_def ROLE_MAP_def names)

section \<open>Membership lookup: \<open>check_entity_role\<close>\<close>

text \<open>
  C8. When the rows of the access list have pairwise different entities (the
  \<open>unique_together\<close> constraint) and one of them belongs to the entity, the lookup
  returns the Role built from that row's stored name. When no row belongs to the
  entity, it returns the role None. In no case does DoesNotExist leave the function.
\<close>

theorem check_entity_role_lookup:
  "(distinct (map entity_id (membership_set self)) \<longrightarrow>
      (\<forall>m \<in> set (membership_set self). entity_id m = id_attr e \<longrightarrow>
         check_entity_role self e = Inr (AclRole (role m))))
   \<and> ((\<forall>m \<in> set (membership_set self). entity_id m \<noteq> id_attr e) \<longrightarrow>
         check_entity_role self e = Inr (AclRole NONE))
   \<and> check_entity_role self e \<noteq> Inl DoesNotExist"
proof -
  have present: "check_entity_role self e = Inr (AclRole (role m))"
    if "distinct (map entity_id (membership_set self))"
      and "m \<in> set (membership_set self)" and "entity_id m = id_attr e" for m
    using get_entity__id_present [OF that(1) that(2)] that(3)
    by (simp add: check_entity_role_def AclRole_init_def)
  have absent: "check_entity_role self e = Inr (AclRole NONE)"
    if "\<forall>m \<in> set (membership_set self). entity_id m \<noteq> id_attr e"
    using get_entity__id_absent [OF that]
    by (simp add: check_entity_role_def global_name_def module_globals_def)
  from present absent check_entity_role_not_DoesNotExist show ?thesis by blast
qed

text \<open>
  The lookup on the list of scenario A: entity 200 has the Admin row, entity 300 has no
  row.
\<close>

theorem check_entity_role_lookup_witness:
  "check_entity_role scenario_A_list (BaseEntity 200) = Inr (AclRole ADMIN)
   \<and> check_entity_role scenario_A_list (BaseEntity 300) = Inr (AclRole NONE)"
  using check_entity_role_lookup [of scenario_A_list "BaseEntity 200"]
    check_entity_role_lookup [of scenario_A_list "BaseEntity 300"]
  by (simp add: scenario_A_list_def BaseEntity_def)

section \<open>The ordered enumerations\<close>

text \<open>
  C9, as stated, fails: the name \<open>Bogus\<close> is in neither dict, and constructing a Level
  or a Role from it succeeds.
\<close>

theorem construction_unchecked_counterexample:
  "LEVEL_MAP ''Bogus'' = None \<and> ROLE_MAP ''Bogus'' = None
   \<and> AclLevel_init ''Bogus'' = Inr (AclLevel ''Bogus'')
   \<and> AclRole_init ''Bogus'' = Inr (AclRole ''Bogus'')"
  by (simp add: LEVEL_MAP_def ROLE_MAP_def AclLevel_init_def AclRole_init_def names)

text \<open>
  C9, amended. Constructing a Level or a Role succeeds for every name, since
  \<open>__init__\<close> stores the name unchecked. For a name outside the enumeration the
  failure comes when the rank is read: conversion to \<open>int\<close>, truth value, \<open>==\<close> and \<open><\<close>
  (against any other object) raise KeyError with that name.
\<close>

theorem construction_total_rank_partial:
  "AclLevel_init n = Inr (AclLevel n) \<and> AclRole_init n = Inr (AclRole n)
   \<and> (LEVEL_MAP n = None \<longrightarrow>
        py_int (AclLevel n) = Inl (KeyError n) \<and> py_bool (AclLevel n) = Inl (KeyError n)
        \<and> py_eq (AclLevel n) x = Inl (KeyError n) \<and> py_lt (AclLevel n) x = Inl (KeyError n))
   \<and> (ROLE_MAP n = None \<longrightarrow>
        py_int (AclRole n) = Inl (KeyError n) \<and> py_bool (AclRole n) = Inl (KeyError n)
        \<and> py_eq (AclRole n) x = Inl (KeyError n) \<and> py_lt (AclRole n) x = Inl (KeyError n))"
  by (simp add: AclLevel_init_def AclRole_init_def subscript_def)

theorem construction_total_rank_partial_witness:
  "AclLevel_init ''Bogus'' = Inr (AclLevel ''Bogus'')
   \<and> py_int (AclLevel ''Bogus'') = Inl (KeyError ''Bogus'')
   \<and> py_eq (AclLevel ''Bogus'') (AclLevel ''Bogus'') = Inl (KeyError ''Bogus'')
   \<and> AclRole_init ''Bogus'' = Inr (AclRole ''Bogus'')
   \<and> py_int (AclRole ''Bogus'') = Inl (KeyError ''Bogus'')
   \<and> py_bool (AclRole ''Bogus'') = Inl (KeyError ''Bogus'')"
  using construction_total_rank_partial [of "''Bogus''" "AclLevel ''Bogus''"]
  by (simp add: LEVEL_MAP_def ROLE_MAP_def names)

text \<open>
  C10. For Levels and Roles whose names have a rank (\<open>int()\<close> of an \<open>AclResponse\<close> has
  none, so \<open>x\<close> and \<open>y\<close> are each a Level or a Role), \<open>x == y\<close> is equality of the two
  ranks and \<open>x < y\<close> is their order, whatever the classes and the names of \<open>x\<close> and
  \<open>y\<close>. In particular a value equals every value built from the same name, and the
  Corp level equals the Blocked role, both of rank 4.
\<close>

theorem rank_decides_eq_and_lt:
  assumes "py_int x = Inr m" and "py_int y = Inr n"
  shows "py_eq x y = Inr (m = n) \<and> py_lt x y = Inr (m < n) \<and> py_eq x x = Inr True
         \<and> py_eq (AclLevel CORP_LEVEL) (AclRole BLOCKED) = Inr True"
proof -
  have corp: "py_eq (AclLevel CORP_LEVEL) (AclRole BLOCKED) = Inr True"
    by (simp add: subscript_def LEVEL_MAP_def ROLE_MAP_def names)
  from assms corp show ?thesis by (cases x) simp_all
qed

text \<open>The Alliance level and the Admin role both have rank 3.\<close>

theorem rank_decides_eq_and_lt_witness:
  "py_eq (AclLevel ALLIANCE_LEVEL) (AclRole ADMIN) = Inr True
   \<and> py_lt (AclLevel ALLIANCE_LEVEL) (AclRole ADMIN) = Inr False
   \<and> py_eq (AclLevel ALLIANCE_LEVEL) (AclLevel ALLIANCE_LEVEL) = Inr True"
proof -
  have x: "py_int (AclLevel ALLIANCE_LEVEL) = Inr 3"
    by (simp add: subscript_def LEVEL_MAP_def names)
  have y: "py_int (AclRole ADMIN) = Inr 3"
    by (simp add: subscript_def ROLE_MAP_def names)
  from rank_decides_eq_and_lt [OF x y] show ?thesis by simp
qed

end
